theory Spec2Isabelle
  imports Complex_Main
begin

section \<open>Tensors, errors and the external functions\<close>

text \<open>
  \<^verbatim>\<open>src/physics/engine.py\<close> moves numpy arrays and tinygrad tensors around and
  does no arithmetic of its own. An array is modelled by its nesting: a 0-dimensional
  array is a \<open>Scalar\<close>, an array of rank \<open>k + 1\<close> is the list of its rank \<open>k\<close>
  slices along the first axis. Entries are real numbers; integer arrays (shape kinds,
  body indices) hold integral reals. A Python float is taken as the real number it
  stands for.
\<close>

datatype tensor = Scalar real | Dim "tensor list"

datatype error = ConfigurationError | TypeError | IndexError | JitError | AssertionError

text \<open>\<^verbatim>\<open>t.shape[0]\<close>: the empty shape tuple of a 0-dimensional tensor has no entry 0.\<close>

definition shape0 :: "tensor \<Rightarrow> error + nat" where
  "shape0 t = (case t of Scalar _ \<Rightarrow> Inl IndexError | Dim ts \<Rightarrow> Inr (length ts))"

text \<open>\<^verbatim>\<open>len(a)\<close> of a numpy array: a 0-dimensional array is unsized.\<close>

definition len :: "tensor \<Rightarrow> error + nat" where
  "len t = (case t of Scalar _ \<Rightarrow> Inl TypeError | Dim ts \<Rightarrow> Inr (length ts))"

text \<open>\<^verbatim>\<open>Tensor.zeros((n,))\<close> and \<^verbatim>\<open>np.ones(n, dtype=np.float32) * 0.5\<close>.\<close>

definition Tensor_zeros :: "nat \<Rightarrow> tensor" where
  "Tensor_zeros n = Dim (replicate n (Scalar 0))"

definition np_ones_half :: "nat \<Rightarrow> tensor" where
  "np_ones_half n = Dim (replicate n (Scalar (1 * 0.5)))"

text \<open>\<^verbatim>\<open>a.astype(dtype)\<close> converts every entry and keeps the shape.\<close>

fun astype :: "(real \<Rightarrow> real) \<Rightarrow> tensor \<Rightarrow> tensor" where
  "astype f (Scalar r) = Scalar (f r)"
| "astype f (Dim ts) = Dim (map (astype f) ts)"

text \<open>The shape of a tensor, as the tensor of zeros of that shape.\<close>

definition zeros_like :: "tensor \<Rightarrow> tensor" where
  "zeros_like t = astype (\<lambda>_. 0) t"

text \<open>
  The two numpy conversions the engine applies to its inputs. Rounding to
  \<^verbatim>\<open>float32\<close> and truncation to \<^verbatim>\<open>int32\<close> belong to numpy; the engine is
  verified for any pair of entry conversions.
\<close>

record casts =
  float32 :: "real \<Rightarrow> real"
  int32 :: "real \<Rightarrow> real"

text \<open>
  A contact record is a dictionary from field names to tensors; for an empty contact set
  the key \<^verbatim>\<open>'ids_a'\<close> may be absent.
\<close>

type_synonym contacts = "string \<rightharpoonup> tensor"

text \<open>
  The six pipeline stages are imported from \<^verbatim>\<open>physics/xpbd/*\<close>, which is not part of
  the sources at hand. The engine is verified for arbitrary stage functions, given as a
  record whose fields carry the imported names and the argument order of their calls in
  \<^verbatim>\<open>_physics_step_static\<close>. A stage function is taken to return (section 7 of the
  specification: the operations are total functions of finite, valid inputs); what it
  might raise is not modelled.
\<close>

record xpbd =
  predict_state ::
    "tensor \<Rightarrow> tensor \<Rightarrow> tensor \<Rightarrow> tensor \<Rightarrow> tensor \<Rightarrow> tensor \<Rightarrow> tensor \<Rightarrow> real
      \<Rightarrow> tensor \<times> tensor \<times> tensor \<times> tensor"
  uniform_spatial_hash :: "tensor \<Rightarrow> tensor \<Rightarrow> tensor \<Rightarrow> tensor"
  generate_contacts ::
    "tensor \<Rightarrow> tensor \<Rightarrow> tensor \<Rightarrow> tensor \<Rightarrow> tensor \<Rightarrow> tensor \<Rightarrow> real \<Rightarrow> contacts"
  solve_constraints ::
    "tensor \<Rightarrow> tensor \<Rightarrow> contacts \<Rightarrow> tensor \<Rightarrow> tensor \<Rightarrow> real \<Rightarrow> int \<Rightarrow> tensor \<times> tensor"
  reconcile_velocities ::
    "tensor \<Rightarrow> tensor \<Rightarrow> tensor \<Rightarrow> tensor \<Rightarrow> tensor \<Rightarrow> tensor \<Rightarrow> real \<Rightarrow> tensor \<times> tensor"
  solve_velocities ::
    "tensor \<Rightarrow> tensor \<Rightarrow> contacts \<Rightarrow> tensor \<Rightarrow> tensor \<Rightarrow> real \<Rightarrow> tensor \<Rightarrow> real
      \<Rightarrow> tensor \<times> tensor"

section \<open>The step function and the n-step loop\<close>

text \<open>
  \<^verbatim>\<open>num_contacts = contacts['ids_a'].shape[0] if 'ids_a' in contacts else 0\<close>
\<close>

definition num_contacts_of :: "contacts \<Rightarrow> error + nat" where
  "num_contacts_of contacts =
     (case contacts ''ids_a'' of None \<Rightarrow> Inr 0 | Some t \<Rightarrow> shape0 t)"

text \<open>
  \<^verbatim>\<open>_physics_step_static\<close>, statement by statement. The only failure of its own is
  the \<^verbatim>\<open>IndexError\<close> of \<^verbatim>\<open>shape[0]\<close>; the stage functions are total. The engine
  always passes \<^verbatim>\<open>restitution\<close>, \<^verbatim>\<open>solver_iterations\<close> and
  \<^verbatim>\<open>contact_compliance\<close>, so their defaults in the signature are never used.
\<close>

definition physics_step_static ::
  "xpbd \<Rightarrow> tensor \<Rightarrow> tensor \<Rightarrow> tensor \<Rightarrow> tensor \<Rightarrow> tensor \<Rightarrow> tensor \<Rightarrow> tensor \<Rightarrow> tensor \<Rightarrow> tensor
    \<Rightarrow> real \<Rightarrow> tensor \<Rightarrow> real \<Rightarrow> int \<Rightarrow> real
    \<Rightarrow> error + (tensor \<times> tensor \<times> tensor \<times> tensor)" where
  "physics_step_static S x q v omega inv_mass inv_inertia shape_type shape_params friction
       dt gravity restitution solver_iterations contact_compliance =
     (let x_old = x; q_old = q;
          (x_pred, q_pred, v_new, omega_new) =
             predict_state S x q v omega inv_mass inv_inertia gravity dt;
          candidate_pairs = uniform_spatial_hash S x_pred shape_type shape_params;
          contacts = generate_contacts S x_pred q_pred candidate_pairs shape_type shape_params
                       friction contact_compliance;
          (x_proj, q_proj) = solve_constraints S x_pred q_pred contacts inv_mass inv_inertia dt
                               solver_iterations;
          (v_reconciled, omega_reconciled) =
             reconcile_velocities S x_proj q_proj x_old q_old v_new omega_new dt
      in case num_contacts_of contacts of
           Inl e \<Rightarrow> Inl e
         | Inr num_contacts \<Rightarrow>
             (let lambda_acc = Tensor_zeros num_contacts;
                  (v_final, omega_final) =
                     solve_velocities S v_reconciled omega_reconciled contacts inv_mass
                       inv_inertia dt lambda_acc restitution
              in Inr (x_proj, q_proj, v_final, omega_final)))"

text \<open>
  \<^verbatim>\<open>for _ in range(num_steps)\<close>: the loop body runs \<open>nat num_steps\<close> times (not at all
  for a negative count); an exception in a step leaves the loop.
\<close>

fun n_step_loop ::
  "xpbd \<Rightarrow> nat \<Rightarrow> tensor \<Rightarrow> tensor \<Rightarrow> tensor \<Rightarrow> tensor \<Rightarrow> tensor \<Rightarrow> tensor \<Rightarrow> tensor \<Rightarrow> tensor
    \<Rightarrow> tensor \<Rightarrow> real \<Rightarrow> tensor \<Rightarrow> real \<Rightarrow> int \<Rightarrow> real
    \<Rightarrow> error + (tensor \<times> tensor \<times> tensor \<times> tensor)" where
  "n_step_loop S 0 x q v omega inv_mass inv_inertia shape_type shape_params friction
       dt gravity restitution solver_iterations contact_compliance = Inr (x, q, v, omega)"
| "n_step_loop S (Suc k) x q v omega inv_mass inv_inertia shape_type shape_params friction
       dt gravity restitution solver_iterations contact_compliance =
     (case physics_step_static S x q v omega inv_mass inv_inertia shape_type shape_params
             friction dt gravity restitution solver_iterations contact_compliance of
        Inl e \<Rightarrow> Inl e
      | Inr (x', q', v', omega') \<Rightarrow>
          n_step_loop S k x' q' v' omega' inv_mass inv_inertia shape_type shape_params friction
            dt gravity restitution solver_iterations contact_compliance)"

definition n_step_simulation ::
  "xpbd \<Rightarrow> tensor \<Rightarrow> tensor \<Rightarrow> tensor \<Rightarrow> tensor \<Rightarrow> tensor \<Rightarrow> tensor \<Rightarrow> tensor \<Rightarrow> tensor \<Rightarrow> tensor
    \<Rightarrow> real \<Rightarrow> tensor \<Rightarrow> int \<Rightarrow> real \<Rightarrow> int \<Rightarrow> real
    \<Rightarrow> error + (tensor \<times> tensor \<times> tensor \<times> tensor)" where
  "n_step_simulation S x q v omega inv_mass inv_inertia shape_type shape_params friction
       dt gravity num_steps restitution solver_iterations contact_compliance =
     n_step_loop S (nat num_steps) x q v omega inv_mass inv_inertia shape_type shape_params
       friction dt gravity restitution solver_iterations contact_compliance"

section \<open>TinyJit\<close>

text \<open>
  \<^verbatim>\<open>step\<close> and \<^verbatim>\<open>run_simulation\<close> never call the two functions above
  directly: they call them through tinygrad's \<^verbatim>\<open>TinyJit\<close>. A \<^verbatim>\<open>TinyJit\<close> object counts its calls. Call 1
  (\<^verbatim>\<open>cnt == 0\<close>) runs the wrapped function. Call 2 (\<^verbatim>\<open>cnt == 1\<close>) runs it while
  recording the kernels it launches and raises \<^verbatim>\<open>JitError\<close> when there was none.
  From call 3 on the function is not run any more: the recorded kernels are replayed on
  the tensor arguments of the call, which must have the shapes of the recorded call.
  Arguments that are not tensors, here the Python numbers \<^verbatim>\<open>dt\<close>,
  \<^verbatim>\<open>num_steps\<close>, \<^verbatim>\<open>restitution\<close>, \<^verbatim>\<open>solver_iterations\<close> and
  \<^verbatim>\<open>contact_compliance\<close>, are not inputs of the recording: a replay computes with the
  values they had in call 2. The counter advances when a call returns.

  In the model \<open>fxn\<close> is the wrapped function, split into its non-tensor arguments
  \<open>scalars\<close> and the holder \<open>args\<close> of its tensor arguments, and \<open>launches\<close> says whether
  a run with these scalars launches a kernel. A replay is the function applied to the
  recorded scalars and the tensors of the call: the recorded kernels are taken to compute
  the function for all tensors of the recorded shapes.
\<close>

record 's TinyJit =
  cnt :: nat
  captured :: "('s \<times> tensor list) option"

definition TinyJit_new :: "'s TinyJit" where
  "TinyJit_new = \<lparr> cnt = 0, captured = None \<rparr>"

definition TinyJit_call ::
  "('s \<Rightarrow> 't \<Rightarrow> error + 'r) \<Rightarrow> ('s \<Rightarrow> bool) \<Rightarrow> ('t \<Rightarrow> tensor list) \<Rightarrow> 's TinyJit \<Rightarrow> 's \<Rightarrow> 't
    \<Rightarrow> error + ('r \<times> 's TinyJit)" where
  "TinyJit_call fxn launches tensors_of jit scalars args =
     (if cnt jit = 0 then
        (case fxn scalars args of
           Inl e \<Rightarrow> Inl e
         | Inr ret \<Rightarrow> Inr (ret, jit\<lparr>cnt := 1\<rparr>))
      else if cnt jit = 1 then
        (case fxn scalars args of
           Inl e \<Rightarrow> Inl e
         | Inr ret \<Rightarrow>
             if launches scalars
             then Inr (ret, jit\<lparr>cnt := 2,
                                captured := Some (scalars, map zeros_like (tensors_of args))\<rparr>)
             else Inl JitError)
      else
        (case captured jit of
           None \<Rightarrow> Inl AssertionError
         | Some (frozen, shapes) \<Rightarrow>
             if map zeros_like (tensors_of args) = shapes
             then (case fxn frozen args of
                     Inl e \<Rightarrow> Inl e
                   | Inr ret \<Rightarrow> Inr (ret, jit\<lparr>cnt := Suc (cnt jit)\<rparr>))
             else Inl AssertionError))"

section \<open>The engine object\<close>

text \<open>
  The attributes of \<^verbatim>\<open>TensorPhysicsEngine\<close>. \<^verbatim>\<open>jitted_step\<close> is the
  \<^verbatim>\<open>TinyJit\<close> of the step function, created by the constructor;
  \<^verbatim>\<open>jitted_n_step\<close> is \<^verbatim>\<open>None\<close> until \<^verbatim>\<open>run_simulation\<close> creates the
  \<^verbatim>\<open>TinyJit\<close> of the loop. The non-tensor arguments of the step function are
  \<open>(dt, restitution, solver_iterations, contact_compliance)\<close>, those of the loop
  \<open>(dt, num_steps, restitution, solver_iterations, contact_compliance)\<close>.
\<close>

record engine =
  self_x :: tensor
  self_q :: tensor
  self_v :: tensor
  self_omega :: tensor
  self_inv_mass :: tensor
  self_inv_inertia :: tensor
  self_shape_type :: tensor
  self_shape_params :: tensor
  self_friction :: tensor
  self_gravity :: tensor
  self_dt :: real
  self_restitution :: real
  self_solver_iterations :: int
  self_contact_compliance :: real
  self_jitted_step :: "(real \<times> real \<times> int \<times> real) TinyJit"
  self_jitted_n_step :: "(real \<times> int \<times> real \<times> int \<times> real) TinyJit option"

text \<open>
  \<^verbatim>\<open>__init__\<close>. An omitted keyword argument is \<open>None\<close> and takes the default of the
  signature. With \<^verbatim>\<open>friction\<close> omitted the constructor calls \<^verbatim>\<open>len(x)\<close>, which
  raises for a 0-dimensional \<open>x\<close>; nothing else in the constructor can fail.
\<close>

definition default_gravity :: "casts \<Rightarrow> tensor" where
  "default_gravity C = astype (float32 C) (Dim [Scalar 0, Scalar (- 9.81), Scalar 0])"

definition init ::
  "casts \<Rightarrow> tensor \<Rightarrow> tensor \<Rightarrow> tensor \<Rightarrow> tensor \<Rightarrow> tensor \<Rightarrow> tensor \<Rightarrow> tensor \<Rightarrow> tensor
    \<Rightarrow> tensor option \<Rightarrow> tensor option \<Rightarrow> real option \<Rightarrow> real option \<Rightarrow> int option
    \<Rightarrow> real option \<Rightarrow> error + engine" where
  "init C x q v omega inv_mass inv_inertia shape_type shape_params friction gravity dt
       restitution solver_iterations contact_compliance =
     (case (case friction of
              None \<Rightarrow> (case len x of Inl e \<Rightarrow> Inl e | Inr n \<Rightarrow> Inr (np_ones_half n))
            | Some f \<Rightarrow> Inr f) of
        Inl e \<Rightarrow> Inl e
      | Inr friction' \<Rightarrow>
          Inr \<lparr> self_x = astype (float32 C) x,
                self_q = astype (float32 C) q,
                self_v = astype (float32 C) v,
                self_omega = astype (float32 C) omega,
                self_inv_mass = astype (float32 C) inv_mass,
                self_inv_inertia = astype (float32 C) inv_inertia,
                self_shape_type = astype (int32 C) shape_type,
                self_shape_params = astype (float32 C) shape_params,
                self_friction = astype (float32 C) friction',
                self_gravity = astype (float32 C)
                                 (case gravity of None \<Rightarrow> default_gravity C | Some g \<Rightarrow> g),
                self_dt = (case dt of None \<Rightarrow> 0.016 | Some d \<Rightarrow> d),
                self_restitution = (case restitution of None \<Rightarrow> 0.1 | Some r \<Rightarrow> r),
                self_solver_iterations = (case solver_iterations of None \<Rightarrow> 8 | Some k \<Rightarrow> k),
                self_contact_compliance =
                  (case contact_compliance of None \<Rightarrow> 0.01 | Some c \<Rightarrow> c),
                self_jitted_step = TinyJit_new,
                self_jitted_n_step = None \<rparr>)"

text \<open>
  The ten tensors an engine passes to either jitted function, in the order of the call,
  and the two wrapped functions on the tensors of an engine.
\<close>

definition tensor_args :: "engine \<Rightarrow> tensor list" where
  "tensor_args e =
     [self_x e, self_q e, self_v e, self_omega e, self_inv_mass e, self_inv_inertia e,
      self_shape_type e, self_shape_params e, self_friction e, self_gravity e]"

definition step_fxn ::
  "xpbd \<Rightarrow> real \<times> real \<times> int \<times> real \<Rightarrow> engine
    \<Rightarrow> error + (tensor \<times> tensor \<times> tensor \<times> tensor)" where
  "step_fxn S = (\<lambda>(dt, restitution, solver_iterations, contact_compliance) e.
     physics_step_static S (self_x e) (self_q e) (self_v e) (self_omega e)
       (self_inv_mass e) (self_inv_inertia e) (self_shape_type e) (self_shape_params e)
       (self_friction e) dt (self_gravity e) restitution solver_iterations
       contact_compliance)"

definition n_step_fxn ::
  "xpbd \<Rightarrow> real \<times> int \<times> real \<times> int \<times> real \<Rightarrow> engine
    \<Rightarrow> error + (tensor \<times> tensor \<times> tensor \<times> tensor)" where
  "n_step_fxn S = (\<lambda>(dt, num_steps, restitution, solver_iterations, contact_compliance) e.
     n_step_simulation S (self_x e) (self_q e) (self_v e) (self_omega e)
       (self_inv_mass e) (self_inv_inertia e) (self_shape_type e) (self_shape_params e)
       (self_friction e) dt (self_gravity e) num_steps restitution solver_iterations
       contact_compliance)"

text \<open>\<^verbatim>\<open>_physics_step\<close>: the step function itself on the engine's own attributes.\<close>

definition physics_step :: "xpbd \<Rightarrow> engine \<Rightarrow> error + (tensor \<times> tensor \<times> tensor \<times> tensor)" where
  "physics_step S e =
     physics_step_static S (self_x e) (self_q e) (self_v e) (self_omega e)
       (self_inv_mass e) (self_inv_inertia e) (self_shape_type e) (self_shape_params e)
       (self_friction e) (self_dt e) (self_gravity e) (self_restitution e)
       (self_solver_iterations e) (self_contact_compliance e)"

text \<open>
  \<^verbatim>\<open>run_simulation\<close>. The result is \<open>Inl\<close> when the call raises; the four
  attributes are assigned only after the jitted loop has returned. A run of the loop
  launches kernels when it runs the pipeline at least once; with \<^verbatim>\<open>num_steps <= 0\<close>
  it returns its arguments and launches none.
\<close>

definition run_simulation :: "xpbd \<Rightarrow> int \<Rightarrow> engine \<Rightarrow> error + engine" where
  "run_simulation S num_steps e =
     (let jit = (case self_jitted_n_step e of None \<Rightarrow> TinyJit_new | Some j \<Rightarrow> j)
      in case TinyJit_call (n_step_fxn S)
                (\<lambda>(dt, num_steps, restitution, solver_iterations, contact_compliance).
                   0 < num_steps)
                tensor_args jit
                (self_dt e, num_steps, self_restitution e, self_solver_iterations e,
                 self_contact_compliance e) e of
           Inl err \<Rightarrow> Inl err
         | Inr ((x', q', v', omega'), jit') \<Rightarrow>
             Inr (e\<lparr>self_jitted_n_step := Some jit',
                    self_x := x', self_q := q', self_v := v', self_omega := omega'\<rparr>))"

text \<open>
  \<^verbatim>\<open>step\<close>, with \<open>None\<close> for an omitted \<^verbatim>\<open>dt\<close>. A run of the pipeline launches
  kernels.
\<close>

definition step :: "xpbd \<Rightarrow> real option \<Rightarrow> engine \<Rightarrow> error + engine" where
  "step S dt e =
     (let e1 = (case dt of
                  None \<Rightarrow> e
                | Some d \<Rightarrow> if d \<noteq> self_dt e then e\<lparr>self_dt := d\<rparr> else e)
      in case TinyJit_call (step_fxn S) (\<lambda>scalars. True) tensor_args (self_jitted_step e1)
                (self_dt e1, self_restitution e1, self_solver_iterations e1,
                 self_contact_compliance e1) e1 of
           Inl err \<Rightarrow> Inl err
         | Inr ((x', q', v', omega'), jit') \<Rightarrow>
             Inr (e1\<lparr>self_jitted_step := jit',
                     self_x := x', self_q := q', self_v := v', self_omega := omega'\<rparr>))"

text \<open>
  \<^verbatim>\<open>get_state\<close> returns the eight arrays under their names (\<^verbatim>\<open>.numpy()\<close> keeps
  the entries); friction is not among them.
\<close>

definition get_state :: "engine \<Rightarrow> (string \<rightharpoonup> tensor)" where
  "get_state e =
     [''x'' \<mapsto> self_x e, ''q'' \<mapsto> self_q e, ''v'' \<mapsto> self_v e, ''omega'' \<mapsto> self_omega e,
      ''inv_mass'' \<mapsto> self_inv_mass e, ''inv_inertia'' \<mapsto> self_inv_inertia e,
      ''shape_type'' \<mapsto> self_shape_type e, ''shape_params'' \<mapsto> self_shape_params e]"

text \<open>\<^verbatim>\<open>set_state\<close> cannot fail.\<close>

definition set_state :: "casts \<Rightarrow> tensor \<Rightarrow> tensor \<Rightarrow> tensor \<Rightarrow> tensor \<Rightarrow> engine \<Rightarrow> engine" where
  "set_state C x q v omega e =
     e\<lparr>self_x := astype (float32 C) x, self_q := astype (float32 C) q,
       self_v := astype (float32 C) v, self_omega := astype (float32 C) omega\<rparr>"

section \<open>Vocabulary of the properties\<close>

text \<open>The Body Store: position, orientation, linear and angular velocity.\<close>

definition body_store :: "engine \<Rightarrow> tensor \<times> tensor \<times> tensor \<times> tensor" where
  "body_store e = (self_x e, self_q e, self_v e, self_omega e)"

text \<open>Inverse mass, inverse inertia, shape kind, shape parameters and friction.\<close>

definition immutable :: "engine \<Rightarrow> tensor \<times> tensor \<times> tensor \<times> tensor \<times> tensor" where
  "immutable e =
     (self_inv_mass e, self_inv_inertia e, self_shape_type e, self_shape_params e,
      self_friction e)"

text \<open>The remaining configuration of an engine.\<close>

definition settings :: "engine \<Rightarrow> tensor \<times> real \<times> real \<times> int \<times> real" where
  "settings e =
     (self_gravity e, self_dt e, self_restitution e, self_solver_iterations e,
      self_contact_compliance e)"

text \<open>\<open>n\<close> sequential calls \<^verbatim>\<open>engine.step()\<close>; the first exception ends the sequence.\<close>

fun sequential_steps :: "xpbd \<Rightarrow> nat \<Rightarrow> engine \<Rightarrow> error + engine" where
  "sequential_steps S 0 e = Inr e"
| "sequential_steps S (Suc n) e =
     (case step S None e of Inl err \<Rightarrow> Inl err | Inr e' \<Rightarrow> sequential_steps S n e')"

text \<open>
  Two engines hold identical inputs when their Body Stores and their configurations
  agree.
\<close>

definition same_inputs :: "engine \<Rightarrow> engine \<Rightarrow> bool" where
  "same_inputs e1 e2 \<longleftrightarrow>
     body_store e1 = body_store e2 \<and> immutable e1 = immutable e2 \<and> settings e1 = settings e2"

text \<open>
  A \<^verbatim>\<open>TinyJit\<close> that replays on the tensors of an engine: it has returned from two
  calls or more, and its recording holds the given non-tensor arguments and the shapes
  of the engine's tensors.
\<close>

definition replays :: "'s TinyJit \<Rightarrow> 's \<Rightarrow> engine \<Rightarrow> bool" where
  "replays jit frozen e \<longleftrightarrow>
     2 \<le> cnt jit \<and> captured jit = Some (frozen, map zeros_like (tensor_args e))"

text \<open>Python's \<^verbatim>\<open>t[i]\<close> for a tensor, \<open>None\<close> where it raises.\<close>

definition child :: "tensor \<Rightarrow> nat \<Rightarrow> tensor option" where
  "child t i =
     (case t of Scalar _ \<Rightarrow> None | Dim ts \<Rightarrow> if i < length ts then Some (ts ! i) else None)"

text \<open>Entrywise combination of two tensors, a scalar being broadcast.\<close>

function tzip :: "(real \<Rightarrow> real \<Rightarrow> real) \<Rightarrow> tensor \<Rightarrow> tensor \<Rightarrow> tensor" where
  "tzip f (Scalar a) (Scalar b) = Scalar (f a b)"
| "tzip f (Scalar a) (Dim bs) = Dim (map (tzip f (Scalar a)) bs)"
| "tzip f (Dim as) (Scalar b) = Dim (map (\<lambda>a. tzip f a (Scalar b)) as)"
| "tzip f (Dim as) (Dim bs) = Dim (map (\<lambda>(a, b). tzip f a b) (zip as bs))"
  by pat_completeness auto
termination
proof (relation "measure (\<lambda>(f, s, t). size s + size t)", goal_cases)
  case 1
  show ?case by simp
next
  case (2 f a bs x)
  then show ?case by (simp add: size_list_estimation' less_Suc_eq_le)
next
  case (3 f as b x)
  then show ?case by (simp add: size_list_estimation' less_Suc_eq_le)
next
  case (4 f as bs p x y)
  then have "x \<in> set as" and "y \<in> set bs"
    by (auto dest: set_zip_leftD set_zip_rightD)
  then have "size x \<le> size_list size as" and "size y \<le> size_list size bs"
    by (simp_all add: size_list_estimation')
  then show ?case by simp
qed


section \<open>What the specification says about the stages and immovable bodies\<close>





section \<open>An instance of the stages, and concrete scenes\<close>

text \<open>
  Modelled from the spec: the stage functions of physics/xpbd are missing. This instance
  is the pipeline for bodies that do not rotate and never come near each other; it serves
  to evaluate the engine on concrete scenes. The predictor follows section 4.1
  (\<^verbatim>\<open>v' = v + g*dt\<close>, \<^verbatim>\<open>x' = x + v'*dt\<close> for a body with inverse mass \<open>> 0\<close>,
  immovable bodies unchanged); no candidate pair is reported and the contact dictionary
  is empty, so the position solver and the velocity solver return their inputs (sections
  4.3, 4.4, 4.6); the reconciler returns the predictor's velocities for a body whose pose
  is unchanged and follows section 4.5 for a body that has moved (\<^verbatim>\<open>(x_proj - x_old)/dt\<close>,
  and angular velocity zero, the orientation delta being the identity).
\<close>

definition movable :: "tensor \<Rightarrow> nat \<Rightarrow> bool" where
  "movable inv_mass i = (case child inv_mass i of Some (Scalar m) \<Rightarrow> 0 < m | _ \<Rightarrow> False)"

definition free_predict_state ::
  "tensor \<Rightarrow> tensor \<Rightarrow> tensor \<Rightarrow> tensor \<Rightarrow> tensor \<Rightarrow> tensor \<Rightarrow> tensor \<Rightarrow> real
    \<Rightarrow> tensor \<times> tensor \<times> tensor \<times> tensor" where
  "free_predict_state x q v omega inv_mass inv_inertia gravity dt =
     (case (x, v) of
        (Dim xs, Dim vs) \<Rightarrow>
          (let v_new = map (\<lambda>i. if movable inv_mass i
                                 then tzip (\<lambda>a g. a + g * dt) (vs ! i) gravity
                                 else vs ! i) [0..<length vs];
               x_pred = map (\<lambda>i. if movable inv_mass i \<and> i < length vs
                                  then tzip (\<lambda>a b. a + b * dt) (xs ! i) (v_new ! i)
                                  else xs ! i) [0..<length xs]
           in (Dim x_pred, q, Dim v_new, omega))
      | _ \<Rightarrow> (x, q, v, omega))"

definition free_reconcile_velocities ::
  "tensor \<Rightarrow> tensor \<Rightarrow> tensor \<Rightarrow> tensor \<Rightarrow> tensor \<Rightarrow> tensor \<Rightarrow> real \<Rightarrow> tensor \<times> tensor" where
  "free_reconcile_velocities x_proj q_proj x_old q_old v_new omega_new dt =
     (let unmoved = (\<lambda>i. child x_proj i = child x_old i \<and> child q_proj i = child q_old i)
      in ((case v_new of
             Scalar _ \<Rightarrow> v_new
           | Dim vs \<Rightarrow>
               Dim (map (\<lambda>i. if unmoved i then vs ! i
                             else (case (child x_proj i, child x_old i) of
                                     (Some new, Some old) \<Rightarrow>
                                       tzip (\<lambda>new old. (new - old) / dt) new old
                                   | _ \<Rightarrow> vs ! i)) [0..<length vs])),
          (case omega_new of
             Scalar _ \<Rightarrow> omega_new
           | Dim ws \<Rightarrow>
               Dim (map (\<lambda>i. if unmoved i then ws ! i
                             else Dim [Scalar 0, Scalar 0, Scalar 0]) [0..<length ws]))))"

definition free_flight :: xpbd where
  "free_flight =
     \<lparr> predict_state = free_predict_state,
       uniform_spatial_hash = (\<lambda>x_pred shape_type shape_params. Dim []),
       generate_contacts =
         (\<lambda>x_pred q_pred candidate_pairs shape_type shape_params friction compliance.
            Map.empty),
       solve_constraints =
         (\<lambda>x_pred q_pred contacts inv_mass inv_inertia dt iterations. (x_pred, q_pred)),
       reconcile_velocities = free_reconcile_velocities,
       solve_velocities =
         (\<lambda>v omega contacts inv_mass inv_inertia dt lambda_acc restitution. (v, omega)) \<rparr>"

text \<open>
  The stages \<open>S\<close> with two replacements that make the argument \<^verbatim>\<open>lambda_acc\<close> of the
  velocity solver visible: the narrowphase reports \<open>n\<close> contacts, and the velocity solver
  returns the \<^verbatim>\<open>lambda_acc\<close> it was called with in place of both velocities.
\<close>

definition observe_lambda :: "nat \<Rightarrow> xpbd \<Rightarrow> xpbd" where
  "observe_lambda n S =
     S\<lparr> generate_contacts :=
          (\<lambda>x_pred q_pred candidate_pairs shape_type shape_params friction compliance.
             [''ids_a'' \<mapsto> Dim (map (\<lambda>i. Scalar (real i)) [0..<n])]),
        solve_velocities :=
          (\<lambda>v omega contacts inv_mass inv_inertia dt lambda_acc restitution.
             (lambda_acc, lambda_acc)) \<rparr>"

text \<open>
  The two conversions on entries that \<^verbatim>\<open>float32\<close> and \<^verbatim>\<open>int32\<close> hold exactly,
  where numpy returns the entry. The scenes below have such entries only (small
  integers and multiples of \<open>1/16\<close>).
\<close>

definition exact :: casts where
  "exact = \<lparr> float32 = (\<lambda>r. r), int32 = (\<lambda>r. r) \<rparr>"

text \<open>\<^verbatim>\<open>np.array\<close> of a list of numbers and of a list of rows.\<close>

definition array1 :: "real list \<Rightarrow> tensor" where
  "array1 rs = Dim (map Scalar rs)"

definition array2 :: "real list list \<Rightarrow> tensor" where
  "array2 rows = Dim (map array1 rows)"

text \<open>
  A scene after the integration test: body 0 is an immovable box at the origin, body 1 a
  sphere of radius 0.5 and mass 1 at height \<open>h\<close>, far above the box, with vertical
  velocity \<open>f\<close>; the box has velocity \<open>(b, 0, 0)\<close>. Gravity is \<open>(0, -1, 0)\<close>.
\<close>

definition scene_x :: "real \<Rightarrow> tensor" where
  "scene_x h = array2 [[0, 0, 0], [0, h, 0]]"

definition scene_q :: tensor where
  "scene_q = array2 [[1, 0, 0, 0], [1, 0, 0, 0]]"

definition scene_v :: "real \<Rightarrow> real \<Rightarrow> tensor" where
  "scene_v f b = array2 [[b, 0, 0], [0, f, 0]]"

definition scene_omega :: tensor where
  "scene_omega = array2 [[0, 0, 0], [0, 0, 0]]"

definition scene_inv_mass :: tensor where
  "scene_inv_mass = array1 [0, 1]"

definition scene_inv_inertia :: tensor where
  "scene_inv_inertia = array2 [[0, 0, 0], [10, 10, 10]]"

definition scene_shape_type :: tensor where
  "scene_shape_type = array1 [1, 0]"

definition scene_shape_params :: tensor where
  "scene_shape_params = array2 [[50, 0.0625, 50], [0.5, 0, 0]]"

definition scene_friction :: tensor where
  "scene_friction = array1 [0.5, 0.5]"

definition scene_gravity :: tensor where
  "scene_gravity = array1 [0, - 1, 0]"

text \<open>The shapes of the ten tensors of the scene.\<close>

definition scene_shapes :: "tensor list" where
  "scene_shapes =
     [array2 [[0, 0, 0], [0, 0, 0]], array2 [[0, 0, 0, 0], [0, 0, 0, 0]],
      array2 [[0, 0, 0], [0, 0, 0]], array2 [[0, 0, 0], [0, 0, 0]], array1 [0, 0],
      array2 [[0, 0, 0], [0, 0, 0]], array1 [0, 0], array2 [[0, 0, 0], [0, 0, 0]],
      array1 [0, 0], array1 [0, 0, 0]]"

text \<open>
  The engine of the scene with stored \<open>\<Delta>t = d\<close>, restitution 0, 32 solver iterations and
  contact compliance \<open>1/64\<close>, in the given states of its two \<^verbatim>\<open>TinyJit\<close> objects.
\<close>

definition drop_scene ::
  "real \<Rightarrow> real \<Rightarrow> real \<Rightarrow> real \<Rightarrow> (real \<times> real \<times> int \<times> real) TinyJit
    \<Rightarrow> (real \<times> int \<times> real \<times> int \<times> real) TinyJit option \<Rightarrow> engine" where
  "drop_scene d h f b js jn =
     \<lparr> self_x = scene_x h,
       self_q = scene_q,
       self_v = scene_v f b,
       self_omega = scene_omega,
       self_inv_mass = scene_inv_mass,
       self_inv_inertia = scene_inv_inertia,
       self_shape_type = scene_shape_type,
       self_shape_params = scene_shape_params,
       self_friction = scene_friction,
       self_gravity = scene_gravity,
       self_dt = d,
       self_restitution = 0,
       self_solver_iterations = 32,
       self_contact_compliance = 0.015625,
       self_jitted_step = js,
       self_jitted_n_step = jn \<rparr>"

section \<open>Basic facts about the engine\<close>

lemma tensor_args_update [simp]:
  "tensor_args (e\<lparr>self_dt := d\<rparr>) = tensor_args e"
  "tensor_args (e\<lparr>self_jitted_step := js\<rparr>) = tensor_args e"
  "tensor_args (e\<lparr>self_jitted_n_step := jn\<rparr>) = tensor_args e"
  by (simp_all add: tensor_args_def)

text \<open>The three kinds of call of a \<^verbatim>\<open>TinyJit\<close>.\<close>

lemma TinyJit_call_first:
  "cnt jit = 0 \<Longrightarrow>
   TinyJit_call fxn launches tensors_of jit scalars args =
     map_sum id (\<lambda>ret. (ret, jit\<lparr>cnt := 1\<rparr>)) (fxn scalars args)"
  by (simp add: TinyJit_call_def split: sum.splits)

lemma TinyJit_call_capture:
  "cnt jit = 1 \<Longrightarrow> launches scalars \<Longrightarrow>
   TinyJit_call fxn launches tensors_of jit scalars args =
     map_sum id
       (\<lambda>ret. (ret, jit\<lparr>cnt := 2,
                          captured := Some (scalars, map zeros_like (tensors_of args))\<rparr>))
       (fxn scalars args)"
  by (simp add: TinyJit_call_def split: sum.splits)

lemma TinyJit_call_replay:
  "2 \<le> cnt jit \<Longrightarrow> captured jit = Some (frozen, map zeros_like (tensors_of args)) \<Longrightarrow>
   TinyJit_call fxn launches tensors_of jit scalars args =
     map_sum id (\<lambda>ret. (ret, jit\<lparr>cnt := Suc (cnt jit)\<rparr>)) (fxn frozen args)"
  by (simp add: TinyJit_call_def split: sum.splits)


lemma step_unfold:
  "step S dt e =
     (let e1 = (case dt of None \<Rightarrow> e | Some d \<Rightarrow> e\<lparr>self_dt := d\<rparr>)
      in case TinyJit_call (step_fxn S) (\<lambda>scalars. True) tensor_args (self_jitted_step e)
                (self_dt e1, self_restitution e, self_solver_iterations e,
                 self_contact_compliance e) e1 of
           Inl err \<Rightarrow> Inl err
         | Inr ((x', q', v', omega'), jit') \<Rightarrow>
             Inr (e1\<lparr>self_jitted_step := jit',
                     self_x := x', self_q := q', self_v := v', self_omega := omega'\<rparr>))"
proof (cases dt)
  case None
  then show ?thesis by (simp add: step_def)
next
  case (Some d)
  have "d = self_dt e \<Longrightarrow> e\<lparr>self_dt := d\<rparr> = e"
    by simp
  with Some show ?thesis
    by (cases "d = self_dt e") (simp_all add: step_def Let_def)
qed

lemma step_fxn_physics_step:
  "step_fxn S (self_dt e, self_restitution e, self_solver_iterations e,
     self_contact_compliance e) e = physics_step S e"
  by (simp add: step_fxn_def physics_step_def)

lemma step_before_capture:
  assumes "cnt (self_jitted_step e) < 2"
  shows "map_sum id body_store (step S dt e)
           = physics_step S (case dt of None \<Rightarrow> e | Some d \<Rightarrow> e\<lparr>self_dt := d\<rparr>)"
proof -
  let ?e1 = "case dt of None \<Rightarrow> e | Some d \<Rightarrow> e\<lparr>self_dt := d\<rparr>"
  have f: "step_fxn S (self_dt ?e1, self_restitution e, self_solver_iterations e,
             self_contact_compliance e) ?e1 = physics_step S ?e1"
    by (cases dt) (simp_all add: step_fxn_def physics_step_def)
  from assms consider "cnt (self_jitted_step e) = 0" | "cnt (self_jitted_step e) = 1"
    by linarith
  then show ?thesis
  proof cases
    case 1
    show ?thesis
      unfolding step_unfold Let_def TinyJit_call_first[OF 1] f
      by (cases "physics_step S ?e1") (auto simp: body_store_def)
  next
    case 2
    show ?thesis
      unfolding step_unfold Let_def TinyJit_call_capture[OF 2 TrueI] f
      by (cases "physics_step S ?e1") (auto simp: body_store_def)
  qed
qed

lemma step_replay:
  assumes "replays (self_jitted_step e) frozen e"
  shows "step S dt e =
     (let e1 = (case dt of None \<Rightarrow> e | Some d \<Rightarrow> e\<lparr>self_dt := d\<rparr>)
      in case step_fxn S frozen e of
           Inl err \<Rightarrow> Inl err
         | Inr (x', q', v', omega') \<Rightarrow>
             Inr (e1\<lparr>self_jitted_step :=
                       (self_jitted_step e)\<lparr>cnt := Suc (cnt (self_jitted_step e))\<rparr>,
                     self_x := x', self_q := q', self_v := v', self_omega := omega'\<rparr>))"
proof -
  let ?e1 = "case dt of None \<Rightarrow> e | Some d \<Rightarrow> e\<lparr>self_dt := d\<rparr>"
  have args: "tensor_args ?e1 = tensor_args e"
    by (cases dt) simp_all
  have fx: "step_fxn S frozen ?e1 = step_fxn S frozen e"
    by (cases dt; cases frozen) (simp_all add: step_fxn_def)
  have c: "2 \<le> cnt (self_jitted_step e)"
    and k: "captured (self_jitted_step e) = Some (frozen, map zeros_like (tensor_args ?e1))"
    using assms by (simp_all add: replays_def args)
  show ?thesis
    unfolding step_unfold Let_def
      TinyJit_call_replay[where tensors_of=tensor_args and args="?e1", OF c k] fx
    by (cases "step_fxn S frozen e") auto
qed

lemma step_frame:
  assumes "step S d e = Inr e'"
  shows "immutable e' = immutable e"
    and "self_gravity e' = self_gravity e"
    and "self_restitution e' = self_restitution e"
    and "self_solver_iterations e' = self_solver_iterations e"
    and "self_contact_compliance e' = self_contact_compliance e"
    and "self_jitted_n_step e' = self_jitted_n_step e"
    and "self_dt e' = (case d of None \<Rightarrow> self_dt e | Some t \<Rightarrow> t)"
  using assms
  by (auto simp: step_unfold immutable_def Let_def split: sum.splits prod.splits option.splits)


lemma run_simulation_frame:
  assumes "run_simulation S n e = Inr e'"
  shows "immutable e' = immutable e" and "settings e' = settings e"
    and "self_jitted_step e' = self_jitted_step e"
  using assms
  by (auto simp: run_simulation_def immutable_def settings_def Let_def
        split: sum.splits prod.splits if_splits)

lemma set_state_frame:
  "immutable (set_state C x q v omega e) = immutable e"
  "settings (set_state C x q v omega e) = settings e"
  "self_jitted_n_step (set_state C x q v omega e) = self_jitted_n_step e"
  "self_jitted_step (set_state C x q v omega e) = self_jitted_step e"
  by (simp_all add: set_state_def immutable_def settings_def)

lemma run_simulation_first:
  assumes "self_jitted_n_step e = None"
  shows "run_simulation S n e =
     (case n_step_fxn S (self_dt e, n, self_restitution e, self_solver_iterations e,
             self_contact_compliance e) e of
        Inl err \<Rightarrow> Inl err
      | Inr (x', q', v', omega') \<Rightarrow>
          Inr (e\<lparr>self_jitted_n_step := Some (TinyJit_new\<lparr>cnt := 1\<rparr>),
                 self_x := x', self_q := q', self_v := v', self_omega := omega'\<rparr>))"
  using assms
  by (simp add: run_simulation_def TinyJit_call_def TinyJit_new_def
        split: sum.splits prod.splits)

lemma run_simulation_capture:
  assumes "self_jitted_n_step e = Some jit" and "cnt jit = 1"
  shows "run_simulation S n e =
     (case n_step_fxn S (self_dt e, n, self_restitution e, self_solver_iterations e,
             self_contact_compliance e) e of
        Inl err \<Rightarrow> Inl err
      | Inr (x', q', v', omega') \<Rightarrow>
          if 0 < n
          then Inr (e\<lparr>self_jitted_n_step :=
                        Some (jit\<lparr>cnt := 2,
                                  captured := Some ((self_dt e, n, self_restitution e,
                                      self_solver_iterations e, self_contact_compliance e),
                                    map zeros_like (tensor_args e))\<rparr>),
                      self_x := x', self_q := q', self_v := v', self_omega := omega'\<rparr>)
          else Inl JitError)"
  using assms
  by (simp add: run_simulation_def TinyJit_call_def split: sum.splits prod.splits)

lemma run_simulation_replay:
  assumes "self_jitted_n_step e = Some jit" and "replays jit frozen e"
  shows "run_simulation S n e =
     (case n_step_fxn S frozen e of
        Inl err \<Rightarrow> Inl err
      | Inr (x', q', v', omega') \<Rightarrow>
          Inr (e\<lparr>self_jitted_n_step := Some (jit\<lparr>cnt := Suc (cnt jit)\<rparr>),
                 self_x := x', self_q := q', self_v := v', self_omega := omega'\<rparr>))"
proof -
  have c: "2 \<le> cnt jit" and k: "captured jit = Some (frozen, map zeros_like (tensor_args e))"
    using assms(2) by (simp_all add: replays_def)
  show ?thesis
    unfolding run_simulation_def Let_def assms(1) option.case
      TinyJit_call_replay[where tensors_of=tensor_args and args=e, OF c k]
    by (cases "n_step_fxn S frozen e") auto
qed

section \<open>The instance evaluated\<close>

lemmas array_defs = array1_def array2_def

lemmas scene_defs = scene_x_def scene_q_def scene_v_def scene_omega_def scene_inv_mass_def
  scene_inv_inertia_def scene_shape_type_def scene_shape_params_def scene_friction_def
  scene_gravity_def

lemmas free_defs = free_flight_def free_predict_state_def free_reconcile_velocities_def
  movable_def child_def num_contacts_of_def Tensor_zeros_def

lemma upt2: "[0..<2] = [0, Suc 0]" "[0..<Suc (Suc 0)] = [0, Suc 0]"
  by (simp_all add: upt_rec)

text \<open>One run of the pipeline in free flight: the sphere falls, the box stays as it is.\<close>

lemma free_flight_pipeline:
  "d \<noteq> 0 \<Longrightarrow>
   physics_step_static free_flight (scene_x h) scene_q (scene_v f b) scene_omega
     scene_inv_mass scene_inv_inertia scene_shape_type scene_shape_params scene_friction d
     scene_gravity r it cc
   = Inr (scene_x (h + (f - d) * d), scene_q, scene_v (f - d) b, scene_omega)"
  by (simp add: physics_step_static_def scene_defs array_defs free_defs Let_def upt2)

lemma scene_shapes:
  "map zeros_like (tensor_args (drop_scene d h f b js jn)) = scene_shapes"
  by (simp add: tensor_args_def drop_scene_def scene_defs scene_shapes_def zeros_like_def
        array_defs)

lemma astype_ident: "astype (\<lambda>r. r) t = t"
  by (induction t) (simp_all add: map_idI)

lemma drop_scene_store:
  "(drop_scene d h f b js jn)\<lparr>self_x := scene_x h', self_q := scene_q,
      self_v := scene_v f' b', self_omega := scene_omega\<rparr> = drop_scene d h' f' b' js jn"
  "(drop_scene d h f b js jn)\<lparr>self_dt := d'\<rparr> = drop_scene d' h f b js jn"
  "(drop_scene d h f b js jn)\<lparr>self_jitted_step := js'\<rparr> = drop_scene d h f b js' jn"
  "(drop_scene d h f b js jn)\<lparr>self_jitted_n_step := jn'\<rparr> = drop_scene d h f b js jn'"
  by (simp_all add: drop_scene_def)

lemma drop_scene_step_fxn:
  "d0 \<noteq> 0 \<Longrightarrow>
   step_fxn free_flight (d0, r, it, cc) (drop_scene d h f b js jn)
     = Inr (scene_x (h + (f - d0) * d0), scene_q, scene_v (f - d0) b, scene_omega)"
  by (simp add: step_fxn_def drop_scene_def free_flight_pipeline)

lemma drop_scene_physics_step:
  "d \<noteq> 0 \<Longrightarrow>
   physics_step free_flight (drop_scene d h f b js jn)
     = Inr (scene_x (h + (f - d) * d), scene_q, scene_v (f - d) b, scene_omega)"
  by (simp add: physics_step_def drop_scene_def free_flight_pipeline)

lemma drop_scene_fields:
  "self_dt (drop_scene d h f b js jn) = d"
  "self_restitution (drop_scene d h f b js jn) = 0"
  "self_solver_iterations (drop_scene d h f b js jn) = 32"
  "self_contact_compliance (drop_scene d h f b js jn) = 0.015625"
  "self_jitted_step (drop_scene d h f b js jn) = js"
  "self_jitted_n_step (drop_scene d h f b js jn) = jn"
  "body_store (drop_scene d h f b js jn) = (scene_x h, scene_q, scene_v f b, scene_omega)"
  "self_x (drop_scene d h f b js jn) = scene_x h"
  "self_q (drop_scene d h f b js jn) = scene_q"
  "self_v (drop_scene d h f b js jn) = scene_v f b"
  "self_omega (drop_scene d h f b js jn) = scene_omega"
  "self_inv_mass (drop_scene d h f b js jn) = scene_inv_mass"
  "self_inv_inertia (drop_scene d h f b js jn) = scene_inv_inertia"
  "self_shape_type (drop_scene d h f b js jn) = scene_shape_type"
  "self_shape_params (drop_scene d h f b js jn) = scene_shape_params"
  "self_friction (drop_scene d h f b js jn) = scene_friction"
  "self_gravity (drop_scene d h f b js jn) = scene_gravity"
  by (simp_all add: drop_scene_def body_store_def)

text \<open>
  The engine of the scene with both \<^verbatim>\<open>TinyJit\<close> objects unused is the one the
  constructor returns for the arrays of the scene.
\<close>

lemma drop_scene_init:
  "init exact (scene_x h) scene_q (scene_v f b) scene_omega scene_inv_mass
     scene_inv_inertia scene_shape_type scene_shape_params (Some scene_friction)
     (Some scene_gravity) (Some d) (Some 0) (Some 32) (Some 0.015625)
   = Inr (drop_scene d h f b TinyJit_new None)"
  by (simp add: init_def exact_def astype_ident drop_scene_def)

text \<open>A call of \<^verbatim>\<open>step\<close> on the scene, by the state of \<^verbatim>\<open>jitted_step\<close>.\<close>

lemma drop_scene_step_first:
  assumes "cnt js = 0" and "(case dt of None \<Rightarrow> d | Some t \<Rightarrow> t) = d'" and "d' \<noteq> 0"
  shows "step free_flight dt (drop_scene d h f b js jn)
           = Inr (drop_scene d' (h + (f - d') * d') (f - d') b (js\<lparr>cnt := 1\<rparr>) jn)"
  using assms
  by (cases dt)
     (simp_all add: step_unfold Let_def drop_scene_fields drop_scene_store
        TinyJit_call_first drop_scene_step_fxn)

lemma drop_scene_step_capture:
  assumes "cnt js = 1" and "(case dt of None \<Rightarrow> d | Some t \<Rightarrow> t) = d'" and "d' \<noteq> 0"
  shows "step free_flight dt (drop_scene d h f b js jn)
           = Inr (drop_scene d' (h + (f - d') * d') (f - d') b
                    (js\<lparr>cnt := 2,
                        captured := Some ((d', 0, 32, 0.015625), scene_shapes)\<rparr>) jn)"
  using assms
  by (cases dt)
     (simp_all add: step_unfold Let_def drop_scene_fields drop_scene_store
        TinyJit_call_capture drop_scene_step_fxn scene_shapes)

lemma drop_scene_step_replay:
  assumes "2 \<le> cnt js" and "captured js = Some ((d0, r0, it0, cc0), scene_shapes)"
    and "(case dt of None \<Rightarrow> d | Some t \<Rightarrow> t) = d'" and "d0 \<noteq> 0"
  shows "step free_flight dt (drop_scene d h f b js jn)
           = Inr (drop_scene d' (h + (f - d0) * d0) (f - d0) b
                    (js\<lparr>cnt := Suc (cnt js)\<rparr>) jn)"
proof -
  have "replays (self_jitted_step (drop_scene d h f b js jn)) (d0, r0, it0, cc0)
          (drop_scene d h f b js jn)"
    using assms(1,2) by (simp add: replays_def scene_shapes drop_scene_fields)
  from step_replay[OF this] assms(3,4) show ?thesis
    by (cases dt)
       (simp_all add: Let_def drop_scene_fields drop_scene_store drop_scene_step_fxn)
qed

text \<open>
  Two \<^verbatim>\<open>step()\<close> calls on the engine constructed with \<open>\<Delta>t = 1\<close> and the sphere at
  rest at height 100: after them \<^verbatim>\<open>jitted_step\<close> holds a recording with
  \<open>\<Delta>t = 1\<close>.
\<close>

lemma drop_scene_two_steps:
  "step free_flight None (drop_scene 1 100 0 0 TinyJit_new None)
     = Inr (drop_scene 1 99 (- 1) 0 \<lparr>cnt = 1, captured = None\<rparr> None)"
  "step free_flight None (drop_scene 1 99 (- 1) 0 \<lparr>cnt = 1, captured = None\<rparr> None)
     = Inr (drop_scene 1 97 (- 2) 0
              \<lparr>cnt = 2, captured = Some ((1, 0, 32, 0.015625), scene_shapes)\<rparr> None)"
  using drop_scene_step_first[where js=TinyJit_new and dt=None and d=1 and d'=1 and h=100
      and f=0 and b=0 and jn=None]
    drop_scene_step_capture[where js="\<lparr>cnt = 1, captured = None\<rparr>" and dt=None
      and d=1 and d'=1 and h=99 and f="- 1" and b=0 and jn=None]
  by (simp_all add: TinyJit_new_def)

text \<open>The loop on the scene, for one and for three steps.\<close>

lemma drop_scene_n_step_fxn:
  assumes "d0 \<noteq> 0"
  shows "n_step_fxn free_flight (d0, 0, r, it, cc) (drop_scene d h f b js jn)
           = Inr (scene_x h, scene_q, scene_v f b, scene_omega)"
    and "n_step_fxn free_flight (d0, 1, r, it, cc) (drop_scene d h f b js jn)
           = Inr (scene_x (h + (f - d0) * d0), scene_q, scene_v (f - d0) b, scene_omega)"
    and "n_step_fxn free_flight (d0, 3, r, it, cc) (drop_scene d h f b js jn)
           = Inr (scene_x (h + (f - d0) * d0 + (f - d0 - d0) * d0 + (f - d0 - d0 - d0) * d0),
                  scene_q, scene_v (f - d0 - d0 - d0) b, scene_omega)"
  using assms
  by (simp_all add: n_step_fxn_def n_step_simulation_def drop_scene_def free_flight_pipeline
        eval_nat_numeral)

section \<open>What a call may change\<close>

text \<open>
  C7. \<^verbatim>\<open>set_state\<close> replaces position, orientation, linear and angular velocity by
  the converted arguments and changes nothing else; inverse mass, inverse inertia, shape
  kind, shape parameters and friction are the same after \<^verbatim>\<open>set_state\<close>, after
  every \<^verbatim>\<open>step\<close> and after every \<^verbatim>\<open>run_simulation\<close>.
\<close>

theorem set_state_and_step_frame:
  "immutable (set_state C x q v omega e) = immutable e \<and>
   settings (set_state C x q v omega e) = settings e \<and>
   self_jitted_n_step (set_state C x q v omega e) = self_jitted_n_step e \<and>
   self_jitted_step (set_state C x q v omega e) = self_jitted_step e \<and>
   body_store (set_state C x q v omega e) =
     (astype (float32 C) x, astype (float32 C) q, astype (float32 C) v,
      astype (float32 C) omega) \<and>
   (\<forall>e'. step S d e = Inr e' \<longrightarrow> immutable e' = immutable e) \<and>
   (\<forall>e'. run_simulation S n e = Inr e' \<longrightarrow> immutable e' = immutable e)"
  by (simp add: set_state_frame step_frame(1) run_simulation_frame(1))
     (simp add: set_state_def body_store_def)

theorem set_state_and_step_frame_witness:
  "step free_flight None (drop_scene 1 100 0 0 TinyJit_new None)
     = Inr (drop_scene 1 99 (- 1) 0 \<lparr>cnt = 1, captured = None\<rparr> None) \<and>
   immutable (drop_scene 1 99 (- 1) 0 \<lparr>cnt = 1, captured = None\<rparr> None)
     = immutable (drop_scene 1 100 0 0 TinyJit_new None) \<and>
   run_simulation free_flight 1 (drop_scene 1 100 0 0 TinyJit_new None)
     = Inr (drop_scene 1 99 (- 1) 0 TinyJit_new (Some \<lparr>cnt = 1, captured = None\<rparr>)) \<and>
   immutable (drop_scene 1 99 (- 1) 0 TinyJit_new (Some \<lparr>cnt = 1, captured = None\<rparr>))
     = immutable (drop_scene 1 100 0 0 TinyJit_new None)"
proof -
  have s: "step free_flight None (drop_scene 1 100 0 0 TinyJit_new None)
     = Inr (drop_scene 1 99 (- 1) 0 \<lparr>cnt = 1, captured = None\<rparr> None)"
    using drop_scene_step_first[where js=TinyJit_new and dt=None and d=1 and d'=1 and h=100
        and f=0 and b=0 and jn=None]
    by (simp add: TinyJit_new_def)
  have r: "run_simulation free_flight 1 (drop_scene 1 100 0 0 TinyJit_new None)
     = Inr (drop_scene 1 99 (- 1) 0 TinyJit_new (Some \<lparr>cnt = 1, captured = None\<rparr>))"
    by (simp add: run_simulation_first drop_scene_fields drop_scene_n_step_fxn(2)
          drop_scene_store TinyJit_new_def)
  show ?thesis
    using set_state_and_step_frame[where C=exact and x="Scalar 0" and q="Scalar 0"
        and v="Scalar 0" and omega="Scalar 0" and e="drop_scene 1 100 0 0 TinyJit_new None"
        and S=free_flight and d=None and n=1] s r
    by simp
qed

section \<open>The time step of a call\<close>




text \<open>
  C9 fails on the code. \<^verbatim>\<open>step(d)\<close> does store \<open>d\<close>, but once \<^verbatim>\<open>jitted_step\<close>
  replays, the Body Store is advanced with the \<open>\<Delta>t\<close> of the recording, whatever \<open>d\<close> is
  and whatever \<open>\<Delta>t\<close> is stored: neither this call nor a later \<^verbatim>\<open>step()\<close> uses
  the last supplied \<open>\<Delta>t\<close>.
\<close>

theorem step_replay_ignores_supplied_dt:
  assumes "replays (self_jitted_step e) (d0, r0, it0, cc0) e"
  shows "map_sum id (\<lambda>e'. (self_dt e', body_store e')) (step S (Some d) e) =
           map_sum id (Pair d)
             (physics_step_static S (self_x e) (self_q e) (self_v e) (self_omega e)
                (self_inv_mass e) (self_inv_inertia e) (self_shape_type e)
                (self_shape_params e) (self_friction e) d0 (self_gravity e) r0 it0 cc0) \<and>
         map_sum id (\<lambda>e'. (self_dt e', body_store e')) (step S None e) =
           map_sum id (Pair (self_dt e))
             (physics_step_static S (self_x e) (self_q e) (self_v e) (self_omega e)
                (self_inv_mass e) (self_inv_inertia e) (self_shape_type e)
                (self_shape_params e) (self_friction e) d0 (self_gravity e) r0 it0 cc0)"
  unfolding step_replay[OF assms] Let_def
  by (simp add: step_fxn_def body_store_def split: sum.splits prod.splits)

text \<open>
  An engine constructed with \<open>\<Delta>t = 1\<close>: after \<^verbatim>\<open>step(); step()\<close> the call
  \<^verbatim>\<open>step(2)\<close> stores 2 and moves the sphere from 97 to 94, a step with \<open>\<Delta>t = 1\<close>;
  the next \<^verbatim>\<open>step()\<close> moves it to 90, where a step with the stored \<open>\<Delta>t = 2\<close> moves
  it to 84.
\<close>

theorem step_replay_ignores_supplied_dt_witness:
  "step free_flight None (drop_scene 1 100 0 0 TinyJit_new None)
     = Inr (drop_scene 1 99 (- 1) 0 \<lparr>cnt = 1, captured = None\<rparr> None) \<and>
   step free_flight None (drop_scene 1 99 (- 1) 0 \<lparr>cnt = 1, captured = None\<rparr> None)
     = Inr (drop_scene 1 97 (- 2) 0
              \<lparr>cnt = 2, captured = Some ((1, 0, 32, 0.015625), scene_shapes)\<rparr> None) \<and>
   map_sum id (\<lambda>e'. (self_dt e', body_store e'))
     (step free_flight (Some 2)
        (drop_scene 1 97 (- 2) 0
           \<lparr>cnt = 2, captured = Some ((1, 0, 32, 0.015625), scene_shapes)\<rparr> None))
     = Inr (2, scene_x 94, scene_q, scene_v (- 3) 0, scene_omega) \<and>
   map_sum id (\<lambda>e'. (self_dt e', body_store e'))
     (step free_flight None
        (drop_scene 2 94 (- 3) 0
           \<lparr>cnt = 3, captured = Some ((1, 0, 32, 0.015625), scene_shapes)\<rparr> None))
     = Inr (2, scene_x 90, scene_q, scene_v (- 4) 0, scene_omega) \<and>
   physics_step free_flight
     (drop_scene 2 94 (- 3) 0
        \<lparr>cnt = 3, captured = Some ((1, 0, 32, 0.015625), scene_shapes)\<rparr> None)
     = Inr (scene_x 84, scene_q, scene_v (- 5) 0, scene_omega)"
proof -
  let ?J2 = "\<lparr>cnt = 2, captured = Some ((1::real, 0::real, 32::int, 0.015625::real),
                scene_shapes)\<rparr>"
  let ?J3 = "\<lparr>cnt = 3, captured = Some ((1::real, 0::real, 32::int, 0.015625::real),
                scene_shapes)\<rparr>"
  have s1: "step free_flight None (drop_scene 1 100 0 0 TinyJit_new None)
     = Inr (drop_scene 1 99 (- 1) 0 \<lparr>cnt = 1, captured = None\<rparr> None)"
    using drop_scene_step_first[where js=TinyJit_new and dt=None and d=1 and d'=1 and h=100
        and f=0 and b=0 and jn=None]
    by (simp add: TinyJit_new_def)
  have s2: "step free_flight None (drop_scene 1 99 (- 1) 0 \<lparr>cnt = 1, captured = None\<rparr> None)
     = Inr (drop_scene 1 97 (- 2) 0 ?J2 None)"
    using drop_scene_step_capture[where js="\<lparr>cnt = 1, captured = None\<rparr>" and dt=None
        and d=1 and d'=1 and h=99 and f="- 1" and b=0 and jn=None]
    by simp
  have r2: "replays (self_jitted_step (drop_scene 1 97 (- 2) 0 ?J2 None))
              (1, 0, 32, 0.015625) (drop_scene 1 97 (- 2) 0 ?J2 None)"
    by (simp add: replays_def scene_shapes drop_scene_fields)
  have r3: "replays (self_jitted_step (drop_scene 2 94 (- 3) 0 ?J3 None))
              (1, 0, 32, 0.015625) (drop_scene 2 94 (- 3) 0 ?J3 None)"
    by (simp add: replays_def scene_shapes drop_scene_fields)
  have p1: "physics_step_static free_flight (scene_x 97) scene_q (scene_v (- 2) 0) scene_omega
     scene_inv_mass scene_inv_inertia scene_shape_type scene_shape_params scene_friction 1
     scene_gravity 0 32 0.015625
     = Inr (scene_x 94, scene_q, scene_v (- 3) 0, scene_omega)"
    using free_flight_pipeline[where d=1 and h=97 and f="- 2" and b=0] by simp
  have p2: "physics_step_static free_flight (scene_x 94) scene_q (scene_v (- 3) 0) scene_omega
     scene_inv_mass scene_inv_inertia scene_shape_type scene_shape_params scene_friction 1
     scene_gravity 0 32 0.015625
     = Inr (scene_x 90, scene_q, scene_v (- 4) 0, scene_omega)"
    using free_flight_pipeline[where d=1 and h=94 and f="- 3" and b=0] by simp
  have p3: "physics_step free_flight (drop_scene 2 94 (- 3) 0 ?J3 None)
     = Inr (scene_x 84, scene_q, scene_v (- 5) 0, scene_omega)"
    using drop_scene_physics_step[where d=2 and h=94 and f="- 3" and b=0 and js="?J3"
        and jn=None]
    by simp
  show ?thesis
    using step_replay_ignores_supplied_dt[OF r2, where S=free_flight and d=2]
      step_replay_ignores_supplied_dt[OF r3, where S=free_flight and d=2]
      s1 s2 p1 p2 p3
    by (simp add: drop_scene_fields)
qed

section \<open>Multi-step runs\<close>

text \<open>
  C3 fails on the code. Once \<^verbatim>\<open>jitted_n_step\<close> replays, \<^verbatim>\<open>run_simulation(n)\<close>
  runs the loop with the step count and the \<open>\<Delta>t\<close> of the recording, whatever \<open>n\<close> is:
  it does not advance the Body Store as \<open>n\<close> sequential \<^verbatim>\<open>step()\<close> calls do.
\<close>

theorem run_simulation_replay_ignores_num_steps:
  assumes "self_jitted_n_step e = Some jit" and "replays jit (d0, k, r0, it0, cc0) e"
  shows "map_sum id body_store (run_simulation S n e) =
           n_step_simulation S (self_x e) (self_q e) (self_v e) (self_omega e)
             (self_inv_mass e) (self_inv_inertia e) (self_shape_type e)
             (self_shape_params e) (self_friction e) d0 (self_gravity e) k r0 it0 cc0"
  unfolding run_simulation_replay[OF assms]
  by (simp add: n_step_fxn_def body_store_def split: sum.splits prod.splits)

text \<open>
  After \<^verbatim>\<open>run_simulation(1); run_simulation(1)\<close> the call \<^verbatim>\<open>run_simulation(3)\<close>
  moves the sphere from 97 to 94, one step, where three \<^verbatim>\<open>step()\<close> calls move it to
  85.
\<close>

theorem run_simulation_replay_ignores_num_steps_witness:
  "run_simulation free_flight 1 (drop_scene 1 100 0 0 TinyJit_new None)
     = Inr (drop_scene 1 99 (- 1) 0 TinyJit_new (Some \<lparr>cnt = 1, captured = None\<rparr>)) \<and>
   run_simulation free_flight 1
     (drop_scene 1 99 (- 1) 0 TinyJit_new (Some \<lparr>cnt = 1, captured = None\<rparr>))
     = Inr (drop_scene 1 97 (- 2) 0 TinyJit_new
              (Some \<lparr>cnt = 2, captured = Some ((1, 1, 0, 32, 0.015625), scene_shapes)\<rparr>)) \<and>
   map_sum id body_store
     (run_simulation free_flight 3
        (drop_scene 1 97 (- 2) 0 TinyJit_new
           (Some \<lparr>cnt = 2, captured = Some ((1, 1, 0, 32, 0.015625), scene_shapes)\<rparr>)))
     = Inr (scene_x 94, scene_q, scene_v (- 3) 0, scene_omega) \<and>
   map_sum id body_store
     (sequential_steps free_flight 3
        (drop_scene 1 97 (- 2) 0 TinyJit_new
           (Some \<lparr>cnt = 2, captured = Some ((1, 1, 0, 32, 0.015625), scene_shapes)\<rparr>)))
     = Inr (scene_x 85, scene_q, scene_v (- 5) 0, scene_omega)"
proof -
  let ?N1 = "Some \<lparr>cnt = 1, captured = (None :: ((real \<times> int \<times> real \<times> int \<times> real) \<times>
                tensor list) option)\<rparr>"
  let ?J2 = "\<lparr>cnt = 2, captured = Some ((1::real, 1::int, 0::real, 32::int, 0.015625::real),
                scene_shapes)\<rparr>"
  let ?E2 = "drop_scene 1 97 (- 2) 0 TinyJit_new (Some ?J2)"
  have r1: "run_simulation free_flight 1 (drop_scene 1 100 0 0 TinyJit_new None)
     = Inr (drop_scene 1 99 (- 1) 0 TinyJit_new ?N1)"
    by (simp add: run_simulation_first drop_scene_fields drop_scene_n_step_fxn(2)
          drop_scene_store TinyJit_new_def)
  have r2: "run_simulation free_flight 1 (drop_scene 1 99 (- 1) 0 TinyJit_new ?N1)
     = Inr ?E2"
    using run_simulation_capture[where e="drop_scene 1 99 (- 1) 0 TinyJit_new ?N1"
        and jit="\<lparr>cnt = 1, captured = None\<rparr>" and S=free_flight and n=1]
    by (simp add: drop_scene_fields drop_scene_n_step_fxn(2) drop_scene_store scene_shapes)
  have rp: "replays ?J2 (1, 1, 0, 32, 0.015625) ?E2"
    by (simp add: replays_def scene_shapes)
  have loop: "n_step_simulation free_flight (scene_x 97) scene_q (scene_v (- 2) 0) scene_omega
     scene_inv_mass scene_inv_inertia scene_shape_type scene_shape_params scene_friction 1
     scene_gravity 1 0 32 0.015625
     = Inr (scene_x 94, scene_q, scene_v (- 3) 0, scene_omega)"
    using free_flight_pipeline[where d=1 and h=97 and f="- 2" and b=0]
    by (simp add: n_step_simulation_def)
  have q1: "step free_flight None ?E2
     = Inr (drop_scene 1 94 (- 3) 0 \<lparr>cnt = 1, captured = None\<rparr> (Some ?J2))"
    using drop_scene_step_first[where js=TinyJit_new and dt=None and d=1 and d'=1 and h=97
        and f="- 2" and b=0 and jn="Some ?J2"]
    by (simp add: TinyJit_new_def)
  have q2: "step free_flight None
       (drop_scene 1 94 (- 3) 0 \<lparr>cnt = 1, captured = None\<rparr> (Some ?J2))
     = Inr (drop_scene 1 90 (- 4) 0
              \<lparr>cnt = 2, captured = Some ((1, 0, 32, 0.015625), scene_shapes)\<rparr> (Some ?J2))"
    using drop_scene_step_capture[where js="\<lparr>cnt = 1, captured = None\<rparr>" and dt=None
        and d=1 and d'=1 and h=94 and f="- 3" and b=0 and jn="Some ?J2"]
    by simp
  have q3: "step free_flight None
       (drop_scene 1 90 (- 4) 0
          \<lparr>cnt = 2, captured = Some ((1, 0, 32, 0.015625), scene_shapes)\<rparr> (Some ?J2))
     = Inr (drop_scene 1 85 (- 5) 0
              \<lparr>cnt = 3, captured = Some ((1, 0, 32, 0.015625), scene_shapes)\<rparr> (Some ?J2))"
    using drop_scene_step_replay[where
        js="\<lparr>cnt = 2, captured = Some ((1, 0, 32, 0.015625), scene_shapes)\<rparr>"
        and dt=None and d=1 and d'=1 and ?d0.0=1 and ?r0.0=0 and ?it0.0=32 and ?cc0.0="0.015625"
        and h=90 and f="- 4" and b=0 and jn="Some ?J2"]
    by simp
  have seq: "map_sum id body_store (sequential_steps free_flight (Suc (Suc (Suc 0))) ?E2)
     = Inr (scene_x 85, scene_q, scene_v (- 5) 0, scene_omega)"
    using q1 q2 q3 by (simp add: drop_scene_fields)
  show ?thesis
    using run_simulation_replay_ignores_num_steps[where e="?E2" and jit="?J2", OF _ rp,
        where S=free_flight and n=3]
      r1 r2 loop seq
    by (simp add: drop_scene_fields numeral_3_eq_3)
qed

text \<open>
  C10 holds for the first \<^verbatim>\<open>run_simulation\<close> call of an engine only. The first call
  \<^verbatim>\<open>run_simulation(0)\<close> leaves the Body Store as it is; as second call it raises
  \<^verbatim>\<open>JitError\<close>, the recording being empty; once \<^verbatim>\<open>jitted_n_step\<close> replays, it
  runs the recorded number of steps.
\<close>

theorem run_simulation_zero_depends_on_calls:
  "(self_jitted_n_step e = None \<longrightarrow>
      map_sum id body_store (run_simulation S 0 e) = Inr (body_store e)) \<and>
   (\<forall>jit. self_jitted_n_step e = Some jit \<and> cnt jit = 1 \<longrightarrow>
      run_simulation S 0 e = Inl JitError) \<and>
   (\<forall>jit d0 k r0 it0 cc0.
      self_jitted_n_step e = Some jit \<and> replays jit (d0, k, r0, it0, cc0) e \<longrightarrow>
      map_sum id body_store (run_simulation S 0 e) =
        n_step_simulation S (self_x e) (self_q e) (self_v e) (self_omega e)
          (self_inv_mass e) (self_inv_inertia e) (self_shape_type e)
          (self_shape_params e) (self_friction e) d0 (self_gravity e) k r0 it0 cc0)"
proof (intro conjI allI impI)
  assume "self_jitted_n_step e = None"
  then show "map_sum id body_store (run_simulation S 0 e) = Inr (body_store e)"
    by (simp add: run_simulation_first n_step_fxn_def n_step_simulation_def body_store_def)
next
  fix jit
  assume "self_jitted_n_step e = Some jit \<and> cnt jit = 1"
  then show "run_simulation S 0 e = Inl JitError"
    by (simp add: run_simulation_capture n_step_fxn_def n_step_simulation_def)
next
  fix jit d0 k r0 it0 cc0
  assume "self_jitted_n_step e = Some jit \<and> replays jit (d0, k, r0, it0, cc0) e"
  then have j: "self_jitted_n_step e = Some jit" and r: "replays jit (d0, k, r0, it0, cc0) e"
    by simp_all
  show "map_sum id body_store (run_simulation S 0 e) =
        n_step_simulation S (self_x e) (self_q e) (self_v e) (self_omega e)
          (self_inv_mass e) (self_inv_inertia e) (self_shape_type e)
          (self_shape_params e) (self_friction e) d0 (self_gravity e) k r0 it0 cc0"
    unfolding run_simulation_replay[OF j r]
    by (simp add: n_step_fxn_def body_store_def split: sum.splits prod.splits)
qed

theorem run_simulation_zero_depends_on_calls_witness:
  "run_simulation free_flight 0 (drop_scene 1 100 0 0 TinyJit_new None)
     = Inr (drop_scene 1 100 0 0 TinyJit_new (Some \<lparr>cnt = 1, captured = None\<rparr>)) \<and>
   run_simulation free_flight 0
     (drop_scene 1 100 0 0 TinyJit_new (Some \<lparr>cnt = 1, captured = None\<rparr>))
     = Inl JitError \<and>
   map_sum id body_store
     (run_simulation free_flight 0
        (drop_scene 1 97 (- 2) 0 TinyJit_new
           (Some \<lparr>cnt = 2, captured = Some ((1, 1, 0, 32, 0.015625), scene_shapes)\<rparr>)))
     = Inr (scene_x 94, scene_q, scene_v (- 3) 0, scene_omega) \<and>
   body_store
     (drop_scene 1 97 (- 2) 0 TinyJit_new
        (Some \<lparr>cnt = 2, captured = Some ((1, 1, 0, 32, 0.015625), scene_shapes)\<rparr>))
     \<noteq> (scene_x 94, scene_q, scene_v (- 3) 0, scene_omega)"
proof -
  let ?N1 = "\<lparr>cnt = 1, captured = (None :: ((real \<times> int \<times> real \<times> int \<times> real) \<times>
                tensor list) option)\<rparr>"
  let ?J2 = "\<lparr>cnt = 2, captured = Some ((1::real, 1::int, 0::real, 32::int, 0.015625::real),
                scene_shapes)\<rparr>"
  let ?E2 = "drop_scene 1 97 (- 2) 0 TinyJit_new (Some ?J2)"
  have r0: "run_simulation free_flight 0 (drop_scene 1 100 0 0 TinyJit_new None)
     = Inr (drop_scene 1 100 0 0 TinyJit_new (Some ?N1))"
    by (simp add: run_simulation_first drop_scene_fields drop_scene_n_step_fxn(1)
          drop_scene_store TinyJit_new_def)
  have rp: "replays ?J2 (1, 1, 0, 32, 0.015625) ?E2"
    by (simp add: replays_def scene_shapes)
  have loop: "n_step_simulation free_flight (scene_x 97) scene_q (scene_v (- 2) 0) scene_omega
     scene_inv_mass scene_inv_inertia scene_shape_type scene_shape_params scene_friction 1
     scene_gravity 1 0 32 0.015625
     = Inr (scene_x 94, scene_q, scene_v (- 3) 0, scene_omega)"
    using free_flight_pipeline[where d=1 and h=97 and f="- 2" and b=0]
    by (simp add: n_step_simulation_def)
  have ne: "scene_x 97 \<noteq> scene_x 94"
    by (simp add: scene_x_def array_defs)
  show ?thesis
    using run_simulation_zero_depends_on_calls[where
        e="drop_scene 1 100 0 0 TinyJit_new (Some ?N1)" and S=free_flight]
      run_simulation_zero_depends_on_calls[where e="?E2" and S=free_flight] r0 rp loop ne
    by (simp add: drop_scene_fields)
qed

section \<open>Identical inputs\<close>

text \<open>
  C8 fails on the code. Of two engines with identical Body Stores and identical
  configuration, one before its third \<^verbatim>\<open>step\<close> call and one replaying a recording,
  the first advances with its stored \<open>\<Delta>t\<close> and the second with the \<open>\<Delta>t\<close> of its
  recording: their outputs differ as soon as the two \<open>\<Delta>t\<close> do.
\<close>

theorem same_inputs_outputs_differ_by_recording:
  assumes "same_inputs e1 e2" and "cnt (self_jitted_step e1) < 2"
    and "replays (self_jitted_step e2) (d0, r0, it0, cc0) e2"
  shows "map_sum id body_store (step S None e1) = physics_step S e1 \<and>
         map_sum id body_store (step S None e2) =
           physics_step S (e1\<lparr>self_dt := d0, self_restitution := r0,
                               self_solver_iterations := it0,
                               self_contact_compliance := cc0\<rparr>)"
proof -
  have eq: "self_x e2 = self_x e1" "self_q e2 = self_q e1" "self_v e2 = self_v e1"
    "self_omega e2 = self_omega e1" "self_inv_mass e2 = self_inv_mass e1"
    "self_inv_inertia e2 = self_inv_inertia e1" "self_shape_type e2 = self_shape_type e1"
    "self_shape_params e2 = self_shape_params e1" "self_friction e2 = self_friction e1"
    "self_gravity e2 = self_gravity e1"
    using assms(1) by (simp_all add: same_inputs_def body_store_def immutable_def settings_def)
  have "map_sum id body_store (step S None e2) = step_fxn S (d0, r0, it0, cc0) e2"
    unfolding step_replay[OF assms(3)] Let_def
    by (simp add: body_store_def split: sum.splits prod.splits)
  then show ?thesis
    using step_before_capture[OF assms(2), of S None]
    by (simp add: step_fxn_def physics_step_def eq)
qed

text \<open>
  A fresh engine and an engine that was constructed with \<open>\<Delta>t = 1\<close> and stepped with
  \<^verbatim>\<open>step(); step(); step(2)\<close> (the first two calls are \<open>drop_scene_two_steps\<close>):
  both hold the sphere at height 94 with velocity \<open>- 3\<close> and \<open>\<Delta>t = 2\<close>;
  \<^verbatim>\<open>step()\<close> moves it to 84 in the first and to 90 in the second.
\<close>

theorem same_inputs_outputs_differ_by_recording_witness:
  "init exact (scene_x 94) scene_q (scene_v (- 3) 0) scene_omega scene_inv_mass
     scene_inv_inertia scene_shape_type scene_shape_params (Some scene_friction)
     (Some scene_gravity) (Some 2) (Some 0) (Some 32) (Some 0.015625)
     = Inr (drop_scene 2 94 (- 3) 0 TinyJit_new None) \<and>
   step free_flight (Some 2)
     (drop_scene 1 97 (- 2) 0
        \<lparr>cnt = 2, captured = Some ((1, 0, 32, 0.015625), scene_shapes)\<rparr> None)
     = Inr (drop_scene 2 94 (- 3) 0
              \<lparr>cnt = 3, captured = Some ((1, 0, 32, 0.015625), scene_shapes)\<rparr> None) \<and>
   same_inputs (drop_scene 2 94 (- 3) 0 TinyJit_new None)
     (drop_scene 2 94 (- 3) 0
        \<lparr>cnt = 3, captured = Some ((1, 0, 32, 0.015625), scene_shapes)\<rparr> None) \<and>
   map_sum id body_store (step free_flight None (drop_scene 2 94 (- 3) 0 TinyJit_new None))
     = Inr (scene_x 84, scene_q, scene_v (- 5) 0, scene_omega) \<and>
   map_sum id body_store
     (step free_flight None
        (drop_scene 2 94 (- 3) 0
           \<lparr>cnt = 3, captured = Some ((1, 0, 32, 0.015625), scene_shapes)\<rparr> None))
     = Inr (scene_x 90, scene_q, scene_v (- 4) 0, scene_omega) \<and>
   scene_x 84 \<noteq> scene_x 90"
proof -
  let ?J2 = "\<lparr>cnt = 2, captured = Some ((1::real, 0::real, 32::int, 0.015625::real),
                scene_shapes)\<rparr>"
  let ?J3 = "\<lparr>cnt = 3, captured = Some ((1::real, 0::real, 32::int, 0.015625::real),
                scene_shapes)\<rparr>"
  let ?A = "drop_scene 2 94 (- 3) 0 TinyJit_new None"
  let ?B = "drop_scene 2 94 (- 3) 0 ?J3 None"
  have i: "init exact (scene_x 94) scene_q (scene_v (- 3) 0) scene_omega scene_inv_mass
     scene_inv_inertia scene_shape_type scene_shape_params (Some scene_friction)
     (Some scene_gravity) (Some 2) (Some 0) (Some 32) (Some 0.015625) = Inr ?A"
    by (simp add: init_def exact_def astype_ident drop_scene_def)
  have s: "step free_flight (Some 2) (drop_scene 1 97 (- 2) 0 ?J2 None) = Inr ?B"
    using drop_scene_step_replay[where js="?J2" and dt="Some 2" and d=1 and d'=2
        and ?d0.0=1 and ?r0.0=0 and ?it0.0=32 and ?cc0.0="0.015625" and h=97 and f="- 2"
        and b=0 and jn=None]
    by simp
  have same: "same_inputs ?A ?B"
    by (simp add: same_inputs_def body_store_def immutable_def settings_def drop_scene_def)
  have c: "cnt (self_jitted_step ?A) < 2"
    by (simp add: drop_scene_fields TinyJit_new_def)
  have r: "replays (self_jitted_step ?B) (1, 0, 32, 0.015625) ?B"
    by (simp add: replays_def scene_shapes drop_scene_fields)
  have pa: "physics_step free_flight ?A
     = Inr (scene_x 84, scene_q, scene_v (- 5) 0, scene_omega)"
    using drop_scene_physics_step[where d=2 and h=94 and f="- 3" and b=0 and js=TinyJit_new
        and jn=None]
    by simp
  have pb: "physics_step free_flight (drop_scene 1 94 (- 3) 0 TinyJit_new None)
     = Inr (scene_x 90, scene_q, scene_v (- 4) 0, scene_omega)"
    using drop_scene_physics_step[where d=1 and h=94 and f="- 3" and b=0 and js=TinyJit_new
        and jn=None]
    by simp
  have fr: "?A\<lparr>self_dt := 1, self_restitution := 0, self_solver_iterations := 32,
      self_contact_compliance := 0.015625\<rparr> = drop_scene 1 94 (- 3) 0 TinyJit_new None"
    by (simp add: drop_scene_def)
  have ne: "scene_x 84 \<noteq> scene_x 90"
    by (simp add: scene_x_def array_defs)
  show ?thesis
    using same_inputs_outputs_differ_by_recording[OF same c r, where S=free_flight]
      i s same pa pb ne
    unfolding fr
    by simp
qed

section \<open>Construction\<close>

text \<open>
  C2, as the code has it. The constructor validates nothing. With \<^verbatim>\<open>friction\<close>
  supplied it succeeds for all arguments and stores every array converted and otherwise as
  given; with \<^verbatim>\<open>friction\<close> omitted it does the same with a friction of 0.5 per row
  of \<open>x\<close>, unless \<open>x\<close> is 0-dimensional, when \<^verbatim>\<open>len(x)\<close> raises
  \<^verbatim>\<open>TypeError\<close>. It never raises \<^verbatim>\<open>ConfigurationError\<close>.
\<close>

theorem construct_performs_no_validation:
  "init C x q v omega inv_mass inv_inertia shape_type shape_params (Some friction) gravity dt
     restitution solver_iterations contact_compliance
   = Inr \<lparr> self_x = astype (float32 C) x,
           self_q = astype (float32 C) q,
           self_v = astype (float32 C) v,
           self_omega = astype (float32 C) omega,
           self_inv_mass = astype (float32 C) inv_mass,
           self_inv_inertia = astype (float32 C) inv_inertia,
           self_shape_type = astype (int32 C) shape_type,
           self_shape_params = astype (float32 C) shape_params,
           self_friction = astype (float32 C) friction,
           self_gravity = astype (float32 C)
                            (case gravity of None \<Rightarrow> default_gravity C | Some g \<Rightarrow> g),
           self_dt = (case dt of None \<Rightarrow> 0.016 | Some d \<Rightarrow> d),
           self_restitution = (case restitution of None \<Rightarrow> 0.1 | Some r \<Rightarrow> r),
           self_solver_iterations = (case solver_iterations of None \<Rightarrow> 8 | Some k \<Rightarrow> k),
           self_contact_compliance = (case contact_compliance of None \<Rightarrow> 0.01 | Some c \<Rightarrow> c),
           self_jitted_step = TinyJit_new,
           self_jitted_n_step = None \<rparr> \<and>
   init C (Dim xs) q v omega inv_mass inv_inertia shape_type shape_params None gravity dt
     restitution solver_iterations contact_compliance
   = init C (Dim xs) q v omega inv_mass inv_inertia shape_type shape_params
       (Some (np_ones_half (length xs))) gravity dt restitution solver_iterations
       contact_compliance \<and>
   init C (Scalar s) q v omega inv_mass inv_inertia shape_type shape_params None gravity dt
     restitution solver_iterations contact_compliance
   = Inl TypeError \<and>
   init C x q v omega inv_mass inv_inertia shape_type shape_params fr gravity dt
     restitution solver_iterations contact_compliance \<noteq> Inl ConfigurationError"
proof -
  have "init C x q v omega inv_mass inv_inertia shape_type shape_params fr gravity dt
     restitution solver_iterations contact_compliance \<noteq> Inl ConfigurationError"
    by (cases fr; cases x) (simp_all add: init_def len_def)
  then show ?thesis
    by (simp add: init_def len_def)
qed

text \<open>
  Two positions but one inverse mass, and a sphere (kind 0) of radius \<open>- 0.5\<close>: the
  constructor returns an engine holding exactly these arrays.
\<close>

theorem construct_accepts_mismatched_arrays:
  "len (array2 [[0, 0, 0], [0, 1, 0]]) = Inr 2 \<and> len (array1 [1]) = Inr 1 \<and>
   init exact (array2 [[0, 0, 0], [0, 1, 0]]) (array2 [[1, 0, 0, 0], [1, 0, 0, 0]])
     (array2 [[0, 0, 0], [0, 0, 0]]) (array2 [[0, 0, 0], [0, 0, 0]]) (array1 [1])
     (array2 [[0, 0, 0], [10, 10, 10]]) (array1 [0, 1])
     (array2 [[- 0.5, 0, 0], [50, 0.0625, 50]]) None (Some (array1 [0, - 1, 0]))
     (Some 1) (Some 0) (Some 32) (Some 0.015625)
     = Inr \<lparr> self_x = array2 [[0, 0, 0], [0, 1, 0]],
             self_q = array2 [[1, 0, 0, 0], [1, 0, 0, 0]],
             self_v = array2 [[0, 0, 0], [0, 0, 0]],
             self_omega = array2 [[0, 0, 0], [0, 0, 0]],
             self_inv_mass = array1 [1],
             self_inv_inertia = array2 [[0, 0, 0], [10, 10, 10]],
             self_shape_type = array1 [0, 1],
             self_shape_params = array2 [[- 0.5, 0, 0], [50, 0.0625, 50]],
             self_friction = array1 [0.5, 0.5],
             self_gravity = array1 [0, - 1, 0],
             self_dt = 1,
             self_restitution = 0,
             self_solver_iterations = 32,
             self_contact_compliance = 0.015625,
             self_jitted_step = TinyJit_new,
             self_jitted_n_step = None \<rparr>"
  by (simp add: init_def exact_def astype_ident len_def np_ones_half_def array_defs)

section \<open>The multiplier handed to the velocity solver\<close>

text \<open>
  C1. Whatever the six stages compute, and whatever multiplier the position solver has
  accumulated, in a step with \<open>n\<close> contacts the argument \<^verbatim>\<open>lambda_acc\<close> of the
  velocity solver is the vector of \<open>n\<close> zeros built in \<^verbatim>\<open>_physics_step_static\<close>:
  the result of \<^verbatim>\<open>solve_constraints\<close> carries positions and orientations only.
\<close>

theorem velocity_solver_receives_zero_lambda:
  "map_sum id (\<lambda>(x', q', v', omega'). (v', omega'))
     (physics_step_static (observe_lambda n S) x q v omega inv_mass inv_inertia shape_type
        shape_params friction dt gravity restitution solver_iterations contact_compliance)
     = Inr (Tensor_zeros n, Tensor_zeros n)"
  by (simp add: physics_step_static_def observe_lambda_def num_contacts_of_def shape0_def
        Let_def split: prod.splits)


section \<open>Immovable bodies\<close>
















end
